theory Spec2Isabelle
  imports Main
begin

section \<open>The SET-clause builder of \<open>helpers/sql.js\<close>\<close>

subsection \<open>JavaScript values and objects\<close>

text \<open>
  A plain JavaScript object is modelled by the list of its own enumerable string-keyed
  properties, in the order in which \<open>Object.keys\<close> and \<open>Object.values\<close> enumerate them
  (the order of insertion, with integer-like keys first). Both enumerate the same list,
  so one association list carries the order of both. A key occurs once in an object;
  a string is a list of 8-bit characters.
\<close>

type_synonym 'a jsobject = "(string \<times> 'a) list"

text \<open>
  The values a property read of \<open>jsToSql\<close> may yield. The builder tests such a value for
  truthiness and converts it to a string, so its shape matters; the model covers
  \<open>undefined\<close>, \<open>null\<close>, booleans, strings, and what the members of \<open>Object.prototype\<close>
  hold: a built-in function, given by its name, and an ordinary object with no
  \<open>toString\<close> of its own. The values of \<open>dataToUpdate\<close> are only copied, never inspected,
  and stay polymorphic.
\<close>

datatype colval = JUndefined | JNull | JBool bool | JStr string | JFunction string | JObject

datatype error = BadRequestError string | TypeError

record 'v ClauseResult =
  setCols :: string
  "values" :: "'v list"

definition Object_keys :: "'a jsobject \<Rightarrow> string list" where
  "Object_keys obj = map fst obj"

definition Object_values :: "'a jsobject \<Rightarrow> 'a list" where
  "Object_values obj = map snd obj"

text \<open>
  The members of \<open>Object.prototype\<close>, which every ordinary object inherits: the
  constructor \<open>Object\<close>, the built-in methods, and the accessor \<open>__proto__\<close>, whose read
  yields the prototype object itself.
\<close>

definition Object_prototype :: "colval jsobject" where
  "Object_prototype =
     [(''constructor'', JFunction ''Object''),
      (''__defineGetter__'', JFunction ''__defineGetter__''),
      (''__defineSetter__'', JFunction ''__defineSetter__''),
      (''hasOwnProperty'', JFunction ''hasOwnProperty''),
      (''__lookupGetter__'', JFunction ''__lookupGetter__''),
      (''__lookupSetter__'', JFunction ''__lookupSetter__''),
      (''isPrototypeOf'', JFunction ''isPrototypeOf''),
      (''propertyIsEnumerable'', JFunction ''propertyIsEnumerable''),
      (''toString'', JFunction ''toString''),
      (''valueOf'', JFunction ''valueOf''),
      (''__proto__'', JObject),
      (''toLocaleString'', JFunction ''toLocaleString'')]"

text \<open>
  The property read \<open>obj[k]\<close> on an ordinary object (one an object literal creates): the
  own property if there is one, else the member of \<open>Object.prototype\<close> of that name, else
  \<open>undefined\<close>.
\<close>

definition js_get :: "colval jsobject \<Rightarrow> string \<Rightarrow> colval" where
  "js_get obj k =
     (case map_of obj k of
        Some v \<Rightarrow> v
      | None \<Rightarrow> (case map_of Object_prototype k of Some v \<Rightarrow> v | None \<Rightarrow> JUndefined))"

fun truthy :: "colval \<Rightarrow> bool" where
  "truthy JUndefined = False"
| "truthy JNull = False"
| "truthy (JBool b) = b"
| "truthy (JStr s) = (s \<noteq> [])"
| "truthy (JFunction name) = True"
| "truthy JObject = True"

text \<open>The operator \<open>a || b\<close>.\<close>

definition js_or :: "colval \<Rightarrow> colval \<Rightarrow> colval" where
  "js_or a b = (if truthy a then a else b)"

text \<open>
  The string conversion a template literal applies to an interpolated value. A built-in
  function prints as its source text, an ordinary object as \<open>[object Object]\<close>.
\<close>

fun ToString :: "colval \<Rightarrow> string" where
  "ToString JUndefined = ''undefined''"
| "ToString JNull = ''null''"
| "ToString (JBool b) = (if b then ''true'' else ''false'')"
| "ToString (JStr s) = s"
| "ToString (JFunction name) = ''function '' @ name @ ''() { [native code] }''"
| "ToString JObject = ''[object Object]''"

text \<open>The decimal numeral of a non-negative integer, as \<open>${idx + 1}\<close> prints it.\<close>

definition digit_char :: "nat \<Rightarrow> char" where
  "digit_char d = char_of (48 + d)"

fun string_of_nat :: "nat \<Rightarrow> string" where
  "string_of_nat n =
     (if n < 10 then [digit_char n] else string_of_nat (n div 10) @ [digit_char (n mod 10)])"

declare string_of_nat.simps [simp del]

text \<open>
  \<open>Array.prototype.join\<close> on an array of strings: the elements in order, the separator
  between neighbours, the empty string for the empty array.
\<close>

fun join :: "string \<Rightarrow> string list \<Rightarrow> string" where
  "join sep [] = []"
| "join sep [x] = x"
| "join sep (x # y # ys) = x @ sep @ join sep (y # ys)"

subsection \<open>The builder\<close>

text \<open>
  The callback of \<open>keys.map\<close>, the template literal
  \<^verbatim>\<open>`"${jsToSql[colName] || colName}"=$${idx + 1}`\<close>.
  The second argument of the builder is \<open>None\<close> when the caller omits it or passes
  \<open>undefined\<close> (or \<open>null\<close>); reading a property of \<open>undefined\<close> throws a \<open>TypeError\<close>.
  \<open>resolved_name\<close> is the interpolated expression \<open>jsToSql[colName] || colName\<close>,
  converted to a string.
\<close>

definition resolved_name :: "colval jsobject \<Rightarrow> string \<Rightarrow> string" where
  "resolved_name m colName = ToString (js_or (js_get m colName) (JStr colName))"

definition col_fragment :: "colval jsobject option \<Rightarrow> string \<Rightarrow> nat \<Rightarrow> error + string" where
  "col_fragment jsToSql colName idx =
     (case jsToSql of
        None \<Rightarrow> Inl TypeError
      | Some m \<Rightarrow>
          Inr ([CHR 0x22] @ resolved_name m colName @ [CHR 0x22]
               @ ''=$'' @ string_of_nat (idx + 1)))"

text \<open>
  \<open>Array.prototype.map\<close> with a callback that receives the element and its index; an
  exception thrown by the callback ends the traversal. \<open>idx\<close> is the index of the head.
\<close>

fun Array_map :: "(string \<Rightarrow> nat \<Rightarrow> error + string) \<Rightarrow> string list \<Rightarrow> nat \<Rightarrow> error + string list" where
  "Array_map f [] idx = Inr []"
| "Array_map f (x # xs) idx =
     (case f x idx of
        Inl e \<Rightarrow> Inl e
      | Inr y \<Rightarrow> (case Array_map f xs (idx + 1) of Inl e \<Rightarrow> Inl e | Inr ys \<Rightarrow> Inr (y # ys)))"

text \<open>The expression \<open>keys.map((colName, idx) => ...)\<close>, whose value the code names \<open>cols\<close>.\<close>

definition keys_map :: "string list \<Rightarrow> colval jsobject option \<Rightarrow> error + string list" where
  "keys_map keys jsToSql = Array_map (\<lambda>colName idx. col_fragment jsToSql colName idx) keys 0"

definition sqlForPartialUpdate ::
  "'v jsobject \<Rightarrow> colval jsobject option \<Rightarrow> error + 'v ClauseResult" where
  "sqlForPartialUpdate dataToUpdate jsToSql =
     (let keys = Object_keys dataToUpdate in
      if length keys = 0 then Inl (BadRequestError ''No data'')
      else
        (case keys_map keys jsToSql of
           Inl e \<Rightarrow> Inl e
         | Inr cols \<Rightarrow>
             Inr \<lparr>setCols = join '', '' cols, values = Object_values dataToUpdate\<rparr>))"

subsection \<open>The builder with its effects on the store\<close>

text \<open>
  JavaScript passes objects by reference, and a callee could change what its caller
  holds. The store has the object behind each argument (\<open>None\<close> for an \<open>undefined\<close> second
  argument) and a heap of all other objects, addressed by position. The builder reads
  its arguments with \<open>Object.keys\<close>, \<open>Object.values\<close> and property reads; every array or
  object it creates (\<open>keys\<close>, \<open>cols\<close>, the array of values, the returned object literal)
  is allocated at a fresh address at the end of the heap.
\<close>

datatype 'v cell = StrArray "string list" | ValArray "'v list" | ClauseObject string nat

record 'v world =
  dataToUpdate_obj :: "'v jsobject"
  jsToSql_obj :: "colval jsobject option"
  heap :: "'v cell list"

definition alloc :: "'v cell \<Rightarrow> 'v world \<Rightarrow> nat \<times> 'v world" where
  "alloc c w = (length (heap w), w\<lparr>heap := heap w @ [c]\<rparr>)"

definition sqlForPartialUpdate_st :: "'v world \<Rightarrow> (error + nat) \<times> 'v world" where
  "sqlForPartialUpdate_st w =
     (let keys = Object_keys (dataToUpdate_obj w);
          (keys_ref, w1) = alloc (StrArray keys) w
      in
      if length keys = 0 then (Inl (BadRequestError ''No data''), w1)
      else
        (case keys_map keys (jsToSql_obj w1) of
           Inl e \<Rightarrow> (Inl e, w1)
         | Inr cols \<Rightarrow>
             (let (cols_ref, w2) = alloc (StrArray cols) w1;
                  (values_ref, w3) = alloc (ValArray (Object_values (dataToUpdate_obj w2))) w2;
                  (result_ref, w4) = alloc (ClauseObject (join '', '' cols) values_ref) w3
              in (Inr result_ref, w4))))"

text \<open>
  What the caller sees of an outcome: the exception, or the \<open>setCols\<close> string and the
  elements of the \<open>values\<close> array of the returned object, read from the store the call
  left behind. \<open>None\<close> when the returned address does not hold such an object.
\<close>

definition read_result :: "(error + nat) \<times> 'v world \<Rightarrow> (error + 'v ClauseResult) option" where
  "read_result out =
     (case fst out of
        Inl e \<Rightarrow> Some (Inl e)
      | Inr a \<Rightarrow>
          (if a < length (heap (snd out)) then
             (case heap (snd out) ! a of
                ClauseObject s v \<Rightarrow>
                  (if v < length (heap (snd out)) then
                     (case heap (snd out) ! v of
                        ValArray vs \<Rightarrow> Some (Inr \<lparr>setCols = s, values = vs\<rparr>)
                      | _ \<Rightarrow> None)
                   else None)
              | _ \<Rightarrow> None)
           else None))"

subsection \<open>Running time\<close>

text \<open>
  The number of steps of a call, counted the usual way: one step for each call of a
  function of the model. An operation on one string or one number (a property read, the
  template literal, a concatenation) counts as one step.
\<close>

definition T_Object_keys :: "'a jsobject \<Rightarrow> nat" where
  "T_Object_keys obj = length obj + 1"

definition T_Object_values :: "'a jsobject \<Rightarrow> nat" where
  "T_Object_values obj = length obj + 1"

fun T_join :: "string \<Rightarrow> string list \<Rightarrow> nat" where
  "T_join sep [] = 1"
| "T_join sep [x] = 1"
| "T_join sep (x # y # ys) = T_join sep (y # ys) + 1"

fun T_Array_map :: "(string \<Rightarrow> nat \<Rightarrow> error + string) \<Rightarrow> string list \<Rightarrow> nat \<Rightarrow> nat" where
  "T_Array_map f [] idx = 1"
| "T_Array_map f (x # xs) idx =
     (case f x idx of
        Inl e \<Rightarrow> 1 + 1
      | Inr y \<Rightarrow> 1 + T_Array_map f xs (idx + 1) + 1)"

definition T_keys_map :: "string list \<Rightarrow> colval jsobject option \<Rightarrow> nat" where
  "T_keys_map keys jsToSql =
     T_Array_map (\<lambda>colName idx. col_fragment jsToSql colName idx) keys 0"

definition T_sqlForPartialUpdate :: "'v jsobject \<Rightarrow> colval jsobject option \<Rightarrow> nat" where
  "T_sqlForPartialUpdate dataToUpdate jsToSql =
     (let keys = Object_keys dataToUpdate in
      T_Object_keys dataToUpdate +
      (if length keys = 0 then 0
       else
         T_keys_map keys jsToSql +
         (case keys_map keys jsToSql of
            Inl e \<Rightarrow> 0
          | Inr cols \<Rightarrow> T_join '', '' cols + T_Object_values dataToUpdate)) + 1)"

section \<open>Properties\<close>

subsection \<open>The callback and the traversal\<close>

lemma upt_length_Cons: "[0..<length (k # ks)] = 0 # map Suc [0..<length ks]"
  by (simp add: upt_conv_Cons map_Suc_upt del: upt_Suc)

text \<open>With a mapping object the traversal never throws, and element \<open>i\<close> of its result
  is built from key \<open>i\<close> and the number \<open>n + i + 1\<close>, where \<open>n\<close> is the starting index.\<close>

lemma Array_map_present:
  "Array_map (\<lambda>colName idx. col_fragment (Some m) colName idx) ks n =
   Inr (map (\<lambda>i. [CHR 0x22] @ resolved_name m (ks ! i) @ [CHR 0x22] @ ''=$''
                  @ string_of_nat (n + i + 1)) [0..<length ks])"
proof (induction ks arbitrary: n)
  case Nil
  show ?case by simp
next
  case (Cons k ks)
  show ?case
    unfolding upt_length_Cons
    using Cons.IH [of "n + 1"] by (simp add: col_fragment_def comp_def)
qed

text \<open>Without a mapping object the first call of the callback throws.\<close>

lemma Array_map_absent:
  "ks \<noteq> [] \<Longrightarrow> Array_map (\<lambda>colName idx. col_fragment None colName idx) ks n = Inl TypeError"
  by (cases ks) (simp_all add: col_fragment_def)

lemma keys_map_present:
  "keys_map ks (Some m) =
   Inr (map (\<lambda>i. [CHR 0x22] @ resolved_name m (ks ! i) @ [CHR 0x22] @ ''=$''
                  @ string_of_nat (i + 1)) [0..<length ks])"
  unfolding keys_map_def Array_map_present by simp

lemma keys_map_absent: "ks \<noteq> [] \<Longrightarrow> keys_map ks None = Inl TypeError"
  unfolding keys_map_def by (rule Array_map_absent)

text \<open>The fragments of a call with a mapping object, by the entries of \<open>dataToUpdate\<close>.\<close>

lemma keys_map_data:
  "keys_map (Object_keys dataToUpdate) (Some m) =
   Inr (map (\<lambda>i. [CHR 0x22] @ resolved_name m (fst (dataToUpdate ! i)) @ [CHR 0x22] @ ''=$''
                  @ string_of_nat (i + 1)) [0..<length dataToUpdate])"
proof -
  let ?frag = "\<lambda>key i. [CHR 0x22] @ resolved_name m key @ [CHR 0x22] @ ''=$'' @ string_of_nat (i + 1)"
  have "map (\<lambda>i. ?frag (map fst dataToUpdate ! i) i) [0..<length dataToUpdate]
      = map (\<lambda>i. ?frag (fst (dataToUpdate ! i)) i) [0..<length dataToUpdate]"
    by (rule map_cong) simp_all
  then show ?thesis
    unfolding keys_map_present Object_keys_def by simp
qed

lemma sql_present:
  assumes "dataToUpdate \<noteq> []"
  shows "sqlForPartialUpdate dataToUpdate (Some m) =
    Inr \<lparr>setCols = join '', ''
            (map (\<lambda>i. [CHR 0x22] @ resolved_name m (fst (dataToUpdate ! i)) @ [CHR 0x22] @ ''=$''
                       @ string_of_nat (i + 1)) [0..<length dataToUpdate]),
         values = map snd dataToUpdate\<rparr>"
proof -
  have "keys_map (map fst dataToUpdate) (Some m) = keys_map (Object_keys dataToUpdate) (Some m)"
    by (simp add: Object_keys_def)
  with assms show ?thesis
    unfolding keys_map_data
    by (simp add: sqlForPartialUpdate_def Object_keys_def Object_values_def)
qed

lemma sql_absent:
  assumes "dataToUpdate \<noteq> []"
  shows "sqlForPartialUpdate dataToUpdate None = Inl TypeError"
  using assms
  by (simp add: sqlForPartialUpdate_def Object_keys_def keys_map_absent)

lemma resolved_name_truthy:
  "map_of m k = Some v \<Longrightarrow> truthy v \<Longrightarrow> resolved_name m k = ToString v"
  by (simp add: resolved_name_def js_get_def js_or_def)


text \<open>Without an own entry the read goes to \<open>Object.prototype\<close>.\<close>

lemma resolved_name_missing:
  "map_of m k = None \<Longrightarrow> map_of Object_prototype k = None \<Longrightarrow> resolved_name m k = k"
  by (simp add: resolved_name_def js_get_def js_or_def)

lemma Object_prototype_truthy: "map_of Object_prototype k = Some f \<Longrightarrow> truthy f"
  by (auto simp: Object_prototype_def split: if_splits)

lemma resolved_name_inherited:
  "map_of m k = None \<Longrightarrow> map_of Object_prototype k = Some f \<Longrightarrow> resolved_name m k = ToString f"
  by (simp add: resolved_name_def js_get_def js_or_def Object_prototype_truthy)

subsection \<open>Decimal numerals\<close>

lemma string_of_nat_nonempty: "string_of_nat n \<noteq> []"
  by (subst string_of_nat.simps) simp

lemma digit_char_inj: "a < 10 \<Longrightarrow> b < 10 \<Longrightarrow> digit_char a = digit_char b \<Longrightarrow> a = b"
proof -
  assume a: "a < 10" and b: "b < 10" and eq: "digit_char a = digit_char b"
  from eq have "(of_char (digit_char a) :: nat) = of_char (digit_char b)" by simp
  with a b show "a = b" by (simp add: digit_char_def)
qed

text \<open>Different numbers print differently, so a placeholder names one position only.\<close>

lemma string_of_nat_inj: "string_of_nat n = string_of_nat m \<Longrightarrow> n = m"
proof (induction n arbitrary: m rule: string_of_nat.induct)
  case (1 n)
  show ?case
  proof (cases "n < 10")
    case n: True
    show ?thesis
    proof (cases "m < 10")
      case True
      with n "1.prems" show ?thesis
        by (simp add: string_of_nat.simps [of n] string_of_nat.simps [of m] digit_char_inj)
    next
      case False
      with n "1.prems" string_of_nat_nonempty [of "m div 10"] show ?thesis
        by (simp add: string_of_nat.simps [of n] string_of_nat.simps [of m] Cons_eq_append_conv)
    qed
  next
    case n: False
    show ?thesis
    proof (cases "m < 10")
      case True
      with n "1.prems" string_of_nat_nonempty [of "n div 10"] show ?thesis
        by (simp add: string_of_nat.simps [of n] string_of_nat.simps [of m] append_eq_Cons_conv)
    next
      case False
      with n "1.prems" have eq: "string_of_nat (n div 10) = string_of_nat (m div 10)"
        and d: "digit_char (n mod 10) = digit_char (m mod 10)"
        by (simp_all add: string_of_nat.simps [of n] string_of_nat.simps [of m])
      from "1.IH" [OF n eq] have "n div 10 = m div 10" .
      moreover from d have "n mod 10 = m mod 10" by (simp add: digit_char_inj)
      ultimately show ?thesis by (metis div_mult_mod_eq)
    qed
  qed
qed


subsection \<open>Outcomes of a call\<close>

text \<open>
  With a mapping object and at least one key the call returns a clause whose \<open>values\<close>
  has one element for each key and whose \<open>setCols\<close> joins one fragment for each key.
\<close>

lemma values_length_with_mapping:
  assumes "dataToUpdate \<noteq> []"
  shows "\<exists>r cols. sqlForPartialUpdate dataToUpdate (Some m) = Inr r
    \<and> keys_map (Object_keys dataToUpdate) (Some m) = Inr cols
    \<and> length (values r) = length (Object_keys dataToUpdate)
    \<and> setCols r = join '', '' cols \<and> length cols = length (values r)"
proof -
  let ?cols = "map (\<lambda>i. [CHR 0x22] @ resolved_name m (fst (dataToUpdate ! i)) @ [CHR 0x22]
                     @ ''=$'' @ string_of_nat (i + 1)) [0..<length dataToUpdate]"
  let ?r = "\<lparr>setCols = join '', '' ?cols, values = map snd dataToUpdate\<rparr>"
  have "sqlForPartialUpdate dataToUpdate (Some m) = Inr ?r"
    using assms by (rule sql_present)
  moreover have "keys_map (Object_keys dataToUpdate) (Some m) = Inr ?cols"
    by (rule keys_map_data)
  moreover have "length (values ?r) = length (Object_keys dataToUpdate)"
    by (simp add: Object_keys_def)
  moreover have "setCols ?r = join '', '' ?cols" and "length ?cols = length (values ?r)"
    by simp_all
  ultimately show ?thesis by blast
qed

text \<open>The two ways a call can fail, and when.\<close>

lemma sql_errors:
  assumes "sqlForPartialUpdate dataToUpdate jsToSql = Inl e"
  shows "(dataToUpdate = [] \<and> e = BadRequestError ''No data'')
       \<or> (dataToUpdate \<noteq> [] \<and> jsToSql = None \<and> e = TypeError)"
proof (cases "dataToUpdate = []")
  case True
  with assms show ?thesis
    by (simp add: sqlForPartialUpdate_def Object_keys_def)
next
  case ne: False
  show ?thesis
  proof (cases jsToSql)
    case None
    with ne assms show ?thesis by (simp add: sql_absent)
  next
    case (Some m)
    with ne assms show ?thesis by (simp add: sql_present)
  qed
qed

text \<open>
  The three cases of the name resolution, for the fragments of a successful call: an own
  entry with a truthy value gives the mapped name; no own entry gives the key, unless
  the key names a member of \<open>Object.prototype\<close>, which then gives the inherited value
  as a string.
\<close>

lemma fragment_by_mapping_entry:
  assumes "dataToUpdate \<noteq> []"
  shows "\<exists>cols.
      sqlForPartialUpdate dataToUpdate (Some jsToSql)
        = Inr \<lparr>setCols = join '', '' cols, values = map snd dataToUpdate\<rparr>
    \<and> keys_map (Object_keys dataToUpdate) (Some jsToSql) = Inr cols
    \<and> length cols = length dataToUpdate
    \<and> (\<forall>i < length dataToUpdate.
          (\<forall>v. map_of jsToSql (fst (dataToUpdate ! i)) = Some v \<and> truthy v \<longrightarrow>
             cols ! i = [CHR 0x22] @ ToString v @ [CHR 0x22] @ ''=$'' @ string_of_nat (i + 1))
        \<and> (map_of jsToSql (fst (dataToUpdate ! i)) = None
             \<and> map_of Object_prototype (fst (dataToUpdate ! i)) = None \<longrightarrow>
             cols ! i = [CHR 0x22] @ fst (dataToUpdate ! i) @ [CHR 0x22] @ ''=$''
                        @ string_of_nat (i + 1))
        \<and> (\<forall>f. map_of jsToSql (fst (dataToUpdate ! i)) = None
             \<and> map_of Object_prototype (fst (dataToUpdate ! i)) = Some f \<longrightarrow>
             cols ! i = [CHR 0x22] @ ToString f @ [CHR 0x22] @ ''=$'' @ string_of_nat (i + 1)))"
proof -
  let ?cols = "map (\<lambda>i. [CHR 0x22] @ resolved_name jsToSql (fst (dataToUpdate ! i)) @ [CHR 0x22]
                     @ ''=$'' @ string_of_nat (i + 1)) [0..<length dataToUpdate]"
  have run: "sqlForPartialUpdate dataToUpdate (Some jsToSql)
        = Inr \<lparr>setCols = join '', '' ?cols, values = map snd dataToUpdate\<rparr>"
    using assms by (rule sql_present)
  have len: "length ?cols = length dataToUpdate" by simp
  have frag: "\<forall>i < length dataToUpdate.
          (\<forall>v. map_of jsToSql (fst (dataToUpdate ! i)) = Some v \<and> truthy v \<longrightarrow>
             ?cols ! i = [CHR 0x22] @ ToString v @ [CHR 0x22] @ ''=$'' @ string_of_nat (i + 1))
        \<and> (map_of jsToSql (fst (dataToUpdate ! i)) = None
             \<and> map_of Object_prototype (fst (dataToUpdate ! i)) = None \<longrightarrow>
             ?cols ! i = [CHR 0x22] @ fst (dataToUpdate ! i) @ [CHR 0x22] @ ''=$''
                        @ string_of_nat (i + 1))
        \<and> (\<forall>f. map_of jsToSql (fst (dataToUpdate ! i)) = None
             \<and> map_of Object_prototype (fst (dataToUpdate ! i)) = Some f \<longrightarrow>
             ?cols ! i = [CHR 0x22] @ ToString f @ [CHR 0x22] @ ''=$'' @ string_of_nat (i + 1))"
    by (simp add: resolved_name_truthy resolved_name_missing resolved_name_inherited)
  have frags: "keys_map (Object_keys dataToUpdate) (Some jsToSql) = Inr ?cols"
    by (rule keys_map_data)
  from run frags len frag show ?thesis by blast
qed

subsection \<open>The examples of the documentation\<close>

text \<open>
  The usage example of the function's documentation,
  \<open>sqlForPartialUpdate({firstName: 'Aliya', age: 32}, {firstName: 'first_name'})\<close>, and a
  call with the empty mapping.
\<close>

lemma usage_example:
  "sqlForPartialUpdate [(''firstName'', Inl ''Aliya''), (''age'', Inr (32 :: int))]
       (Some [(''firstName'', JStr ''first_name'')])
     = Inr \<lparr>setCols = [CHR 0x22] @ ''first_name'' @ [CHR 0x22] @ ''=$1, ''
                        @ [CHR 0x22] @ ''age'' @ [CHR 0x22] @ ''=$2'',
            values = [Inl ''Aliya'', Inr 32]\<rparr>"
  by code_simp

lemma empty_mapping_example:
  "sqlForPartialUpdate [(''age'', 45 :: int)] (Some [])
     = Inr \<lparr>setCols = [CHR 0x22] @ ''age'' @ [CHR 0x22] @ ''=$1'', values = [45]\<rparr>"
  by code_simp

text \<open>
  A key that names a member of \<open>Object.prototype\<close>: an own entry of the mapping, even a
  falsy one, hides the inherited member; with no own entry the inherited function is
  read, and its source text becomes the column name.
\<close>

lemma own_entry_hides_inherited_member:
  "sqlForPartialUpdate [(''toString'', 1 :: int)] (Some [(''toString'', JStr [])])
     = Inr \<lparr>setCols = [CHR 0x22] @ ''toString'' @ [CHR 0x22] @ ''=$1'', values = [1]\<rparr>"
  by code_simp

lemma inherited_member_is_read:
  "sqlForPartialUpdate [(''toString'', 1 :: int)] (Some [])
     = Inr \<lparr>setCols = [CHR 0x22] @ ''function toString() { [native code] }'' @ [CHR 0x22]
                        @ ''=$1'',
            values = [1]\<rparr>"
  by code_simp

text \<open>The numeral of a position with two digits.\<close>

lemma twelfth_placeholder: "string_of_nat (11 + 1) = ''12''"
  by code_simp

subsection \<open>The store\<close>

text \<open>
  A call on a store is the builder applied to the two argument objects, together with
  the cells it appends to the heap: the array of keys always, and on success the array
  of fragments, the array of values and the returned object.
\<close>

lemma st_unfold:
  "sqlForPartialUpdate_st w =
     (case sqlForPartialUpdate (dataToUpdate_obj w) (jsToSql_obj w) of
        Inl e \<Rightarrow> (Inl e, w\<lparr>heap := heap w @ [StrArray (Object_keys (dataToUpdate_obj w))]\<rparr>)
      | Inr r \<Rightarrow>
          (Inr (length (heap w) + 3),
           w\<lparr>heap := heap w @
              [StrArray (Object_keys (dataToUpdate_obj w)),
               StrArray (case keys_map (Object_keys (dataToUpdate_obj w)) (jsToSql_obj w) of
                           Inr cols \<Rightarrow> cols | Inl e \<Rightarrow> []),
               ValArray (values r),
               ClauseObject (setCols r) (length (heap w) + 2)]\<rparr>))"
  by (simp add: sqlForPartialUpdate_st_def sqlForPartialUpdate_def alloc_def Let_def
      split: sum.splits)

lemma st_frame:
  "\<exists>new. snd (sqlForPartialUpdate_st w) = w\<lparr>heap := heap w @ new\<rparr>"
  unfolding st_unfold by (cases "sqlForPartialUpdate (dataToUpdate_obj w) (jsToSql_obj w)") auto

text \<open>What the caller reads from the store after the call is the result of the builder.\<close>

lemma st_result:
  "read_result (sqlForPartialUpdate_st w)
     = Some (sqlForPartialUpdate (dataToUpdate_obj w) (jsToSql_obj w))"
  unfolding st_unfold
  by (cases "sqlForPartialUpdate (dataToUpdate_obj w) (jsToSql_obj w)")
     (simp_all add: read_result_def nth_append)

subsection \<open>Running time\<close>

lemma T_Array_map_present:
  "T_Array_map (\<lambda>colName idx. col_fragment (Some m) colName idx) ks n = 2 * length ks + 1"
  by (induction ks arbitrary: n) (simp_all add: col_fragment_def)

lemma T_Array_map_absent:
  "ks \<noteq> [] \<Longrightarrow> T_Array_map (\<lambda>colName idx. col_fragment None colName idx) ks n = 2"
  by (cases ks) (simp_all add: col_fragment_def)

lemma T_join_length: "xs \<noteq> [] \<Longrightarrow> T_join sep xs = length xs"
  by (induction sep xs rule: T_join.induct) simp_all

lemma time_empty: "T_sqlForPartialUpdate [] jsToSql = 2"
  by (simp add: T_sqlForPartialUpdate_def Object_keys_def T_Object_keys_def)

lemma time_with_mapping:
  assumes "dataToUpdate \<noteq> []"
  shows "T_sqlForPartialUpdate dataToUpdate (Some m) = 5 * length dataToUpdate + 4"
  using assms
  by (simp add: T_sqlForPartialUpdate_def Object_keys_def T_Object_keys_def T_Object_values_def
      T_keys_map_def T_Array_map_present keys_map_present T_join_length)

lemma time_without_mapping:
  assumes "dataToUpdate \<noteq> []"
  shows "T_sqlForPartialUpdate dataToUpdate None = length dataToUpdate + 4"
  using assms
  by (simp add: T_sqlForPartialUpdate_def Object_keys_def T_Object_keys_def
      T_keys_map_def T_Array_map_absent keys_map_absent)

text \<open>
  Every call ends, and the number of its steps lies between \<open>n\<close> and \<open>5 * n + 4\<close> for an
  object of \<open>n\<close> keys: linear in the number of keys, whatever the second argument.
\<close>

lemma time_linear:
  "length dataToUpdate < T_sqlForPartialUpdate dataToUpdate jsToSql
   \<and> T_sqlForPartialUpdate dataToUpdate jsToSql \<le> 5 * length dataToUpdate + 4"
proof (cases "dataToUpdate = []")
  case True
  then show ?thesis by (simp add: time_empty)
next
  case False
  then show ?thesis
    by (cases jsToSql) (simp_all add: time_with_mapping time_without_mapping)
qed

subsection \<open>The claims\<close>

text \<open>
  Claim C1. For a non-empty \<open>dataToUpdate\<close> and a mapping \<open>jsToSql\<close>, the call returns a
  clause whose \<open>setCols\<close> is the join of the fragments the code computes (its array
  \<open>cols\<close>), one for each key. Fragment \<open>i\<close> (counted from 0) is the one built for key \<open>i\<close>
  and ends in the placeholder \<open>$\<close> followed by the numeral of \<open>i + 1\<close>, and \<open>values[i]\<close> is the value stored under key \<open>i\<close>. Read by
  placeholder: for \<open>1 \<le> k \<le> n\<close>, fragment \<open>k - 1\<close> carries \<open>$k\<close> and \<open>values[k - 1]\<close> is
  the value of key \<open>k - 1\<close>. No two positions share a placeholder.
\<close>

theorem placeholders_number_the_values:
  assumes "dataToUpdate \<noteq> []"
  shows "\<exists>r cols.
      sqlForPartialUpdate dataToUpdate (Some jsToSql) = Inr r
    \<and> keys_map (Object_keys dataToUpdate) (Some jsToSql) = Inr cols
    \<and> setCols r = join '', '' cols
    \<and> length cols = length dataToUpdate
    \<and> length (values r) = length dataToUpdate
    \<and> (\<forall>i < length dataToUpdate.
          cols ! i = [CHR 0x22] @ resolved_name jsToSql (fst (dataToUpdate ! i)) @ [CHR 0x22]
                     @ ''=$'' @ string_of_nat (i + 1)
        \<and> values r ! i = snd (dataToUpdate ! i))
    \<and> (\<forall>k. 1 \<le> k \<and> k \<le> length dataToUpdate \<longrightarrow>
          (\<exists>col. cols ! (k - 1) = [CHR 0x22] @ col @ [CHR 0x22] @ ''=$'' @ string_of_nat k)
        \<and> values r ! (k - 1) = snd (dataToUpdate ! (k - 1)))
    \<and> (\<forall>i < length dataToUpdate. \<forall>j < length dataToUpdate.
          string_of_nat (i + 1) = string_of_nat (j + 1) \<longrightarrow> i = j)"
proof -
  let ?cols = "map (\<lambda>i. [CHR 0x22] @ resolved_name jsToSql (fst (dataToUpdate ! i)) @ [CHR 0x22]
                     @ ''=$'' @ string_of_nat (i + 1)) [0..<length dataToUpdate]"
  let ?r = "\<lparr>setCols = join '', '' ?cols, values = map snd dataToUpdate\<rparr>"
  have run: "sqlForPartialUpdate dataToUpdate (Some jsToSql) = Inr ?r"
    using assms by (rule sql_present)
  have frags: "keys_map (Object_keys dataToUpdate) (Some jsToSql) = Inr ?cols"
    by (rule keys_map_data)
  have by_index: "\<forall>i < length dataToUpdate.
          ?cols ! i = [CHR 0x22] @ resolved_name jsToSql (fst (dataToUpdate ! i)) @ [CHR 0x22]
                     @ ''=$'' @ string_of_nat (i + 1)
        \<and> values ?r ! i = snd (dataToUpdate ! i)"
    by simp
  have by_placeholder: "\<forall>k. 1 \<le> k \<and> k \<le> length dataToUpdate \<longrightarrow>
          (\<exists>col. ?cols ! (k - 1) = [CHR 0x22] @ col @ [CHR 0x22] @ ''=$'' @ string_of_nat k)
        \<and> values ?r ! (k - 1) = snd (dataToUpdate ! (k - 1))"
  proof (intro allI impI)
    fix k assume k: "1 \<le> k \<and> k \<le> length dataToUpdate"
    then have "k - 1 < length dataToUpdate" and "k - 1 + 1 = k" by arith+
    then show "(\<exists>col. ?cols ! (k - 1) = [CHR 0x22] @ col @ [CHR 0x22] @ ''=$'' @ string_of_nat k)
        \<and> values ?r ! (k - 1) = snd (dataToUpdate ! (k - 1))"
      by simp
  qed
  have distinct: "\<forall>i < length dataToUpdate. \<forall>j < length dataToUpdate.
          string_of_nat (i + 1) = string_of_nat (j + 1) \<longrightarrow> i = j"
    by (auto dest: string_of_nat_inj)
  have "setCols ?r = join '', '' ?cols" "length ?cols = length dataToUpdate"
    "length (values ?r) = length dataToUpdate"
    by simp_all
  with run frags by_index by_placeholder distinct show ?thesis by blast
qed

theorem placeholders_number_the_values_witness:
  "[(''firstName'', Inl ''Aliya''), (''age'', Inr (32::int))] \<noteq> []
   \<and> (\<exists>r. sqlForPartialUpdate [(''firstName'', Inl ''Aliya''), (''age'', Inr (32::int))]
              (Some [(''firstName'', JStr ''first_name'')]) = Inr r
          \<and> values r ! 0 = Inl ''Aliya'' \<and> values r ! 1 = Inr 32)"
proof -
  let ?d = "[(''firstName'', Inl ''Aliya''), (''age'', Inr (32::int))]"
  have ne: "?d \<noteq> []" by simp
  from placeholders_number_the_values [OF ne, of "[(''firstName'', JStr ''first_name'')]"]
  obtain r cols where run: "sqlForPartialUpdate ?d (Some [(''firstName'', JStr ''first_name'')]) = Inr r"
    and idx: "\<forall>i < length ?d.
          cols ! i = [CHR 0x22] @ resolved_name [(''firstName'', JStr ''first_name'')] (fst (?d ! i)) @ [CHR 0x22]
                     @ ''=$'' @ string_of_nat (i + 1)
        \<and> values r ! i = snd (?d ! i)"
    by blast
  from idx have "values r ! 0 = Inl ''Aliya''" and "values r ! 1 = Inr 32"
    by simp_all
  with ne run show ?thesis by blast
qed

text \<open>
  Claim C2. The comment above the callback and the documentation of the function state
  a rule of key presence: the mapped name when \<open>jsToSql\<close> has the key, the key itself
  when it has not. The code resolves the name with \<open>jsToSql[colName] || colName\<close> and
  breaks the rule on both sides. A key that is present with the empty string as its
  name gets the key: \<open>({a: 1}, {a: ""})\<close> gives \<open>"a"=$1\<close>. A key that is absent from the
  mapping and names a member of \<open>Object.prototype\<close> gets what the mapping inherits:
  \<open>({constructor: 1}, {})\<close> gives \<open>"function Object() { [native code] }"=$1\<close>.
  (\<open>fragment_by_mapping_entry\<close> has the three cases of the resolution.)
\<close>

theorem key_presence_rule_broken:
  "map_of [(''a'', JStr [])] ''a'' = Some (JStr [])
   \<and> sqlForPartialUpdate [(''a'', 1 :: int)] (Some [(''a'', JStr [])])
       = Inr \<lparr>setCols = [CHR 0x22] @ ''a'' @ [CHR 0x22] @ ''=$1'', values = [1]\<rparr>
   \<and> map_of ([] :: colval jsobject) ''constructor'' = None
   \<and> sqlForPartialUpdate [(''constructor'', 1 :: int)] (Some [])
       = Inr \<lparr>setCols = [CHR 0x22] @ ''function Object() { [native code] }'' @ [CHR 0x22] @ ''=$1'',
              values = [1]\<rparr>"
  by code_simp

text \<open>
  Claim C3. An empty \<open>dataToUpdate\<close> raises the \<open>BadRequestError\<close> whatever the second
  argument is: a mapping with entries, the empty mapping, or no mapping at all. No
  clause is produced.
\<close>

theorem empty_data_raises_BadRequestError:
  "sqlForPartialUpdate [] jsToSql = Inl (BadRequestError ''No data'')"
  by (simp add: sqlForPartialUpdate_def Object_keys_def)

text \<open>
  Claim C4. The documentation of the function declares \<open>jsToSql\<close> optional, and the claim
  says that a call with a non-empty \<open>dataToUpdate\<close> and no mapping succeeds. The code
  reads \<open>jsToSql[colName]\<close> for the first key, which throws on \<open>undefined\<close>: the call
  \<open>sqlForPartialUpdate({age: 45})\<close> ends in a \<open>TypeError\<close>, an error other than the
  \<open>BadRequestError\<close> of the empty object. (\<open>sql_absent\<close> has every non-empty object,
  \<open>sql_errors\<close> every failing call.)
\<close>

theorem omitted_mapping_raises_TypeError:
  "sqlForPartialUpdate [(''age'', 45 :: int)] None = Inl TypeError"
  by code_simp

text \<open>
  Claim C5. For a non-empty \<open>dataToUpdate\<close> and a mapping \<open>jsToSql\<close>, \<open>setCols\<close> is the
  join, with the two characters comma and space as separator, of the fragments of the
  keys in order; the fragment of key \<open>i\<close> is a double quote, the resolved column name
  (the same expression whether it yields the mapped name or the key), a double quote,
  \<open>=$\<close>, and the numeral of \<open>i + 1\<close>.
\<close>

theorem setCols_joins_quoted_fragments:
  assumes "dataToUpdate \<noteq> []"
  shows "sqlForPartialUpdate dataToUpdate (Some jsToSql) =
    Inr \<lparr>setCols = join [CHR '','', CHR '' '']
            (map (\<lambda>i. [CHR 0x22] @ resolved_name jsToSql (fst (dataToUpdate ! i)) @ [CHR 0x22]
                       @ ''=$'' @ string_of_nat (i + 1)) [0..<length dataToUpdate]),
         values = map snd dataToUpdate\<rparr>"
  using assms by (rule sql_present)

theorem setCols_joins_quoted_fragments_witness:
  "[(''numEmployees'', Inr (10::int)), (''logoUrl'', Inl ''x.png'')] \<noteq> []
   \<and> sqlForPartialUpdate [(''numEmployees'', Inr (10::int)), (''logoUrl'', Inl ''x.png'')]
        (Some [(''numEmployees'', JStr ''num_employees''), (''logoUrl'', JStr ''logo_url'')])
     = Inr \<lparr>setCols = [CHR 0x22] @ ''num_employees'' @ [CHR 0x22] @ ''=$1, ''
                        @ [CHR 0x22] @ ''logo_url'' @ [CHR 0x22] @ ''=$2'',
            values = [Inr 10, Inl ''x.png'']\<rparr>"
proof -
  let ?d = "[(''numEmployees'', Inr (10::int)), (''logoUrl'', Inl ''x.png'')]"
  have ne: "?d \<noteq> []" by simp
  have two: "[0..<length ?d] = [0, 1]" by (simp add: upt_rec)
  show ?thesis
    using ne
    unfolding setCols_joins_quoted_fragments [OF ne] two
    by code_simp
qed

text \<open>
  Claim C6. The claim counts one element of \<open>values\<close> and one fragment of \<open>setCols\<close> for
  each key, for every mapping and also for an absent one. With a mapping object the code
  does so (\<open>values_length_with_mapping\<close>). With no mapping there is neither a \<open>values\<close>
  array nor a \<open>setCols\<close> string: the call
  \<open>sqlForPartialUpdate({firstName: "Aliya", age: 32})\<close> throws a \<open>TypeError\<close>.
\<close>

theorem omitted_mapping_yields_no_values:
  "sqlForPartialUpdate [(''firstName'', Inl ''Aliya''), (''age'', Inr (32 :: int))] None
     = Inl TypeError"
  by code_simp

text \<open>
  Claim C7. Two calls whose argument objects have the same properties in the same order
  and the same mapping give the same outcome, whatever else the two stores hold: the
  same exception, or the same \<open>setCols\<close> string and the same sequence of \<open>values\<close>. The
  outcome is that of the builder on the two argument objects. In particular a second
  call on the store the first call left behind gives the outcome of the first.
\<close>

theorem identical_inputs_identical_results:
  assumes "dataToUpdate_obj w1 = dataToUpdate_obj w2"
    and "jsToSql_obj w1 = jsToSql_obj w2"
  shows "read_result (sqlForPartialUpdate_st w1) = read_result (sqlForPartialUpdate_st w2)
    \<and> read_result (sqlForPartialUpdate_st w1)
        = Some (sqlForPartialUpdate (dataToUpdate_obj w1) (jsToSql_obj w1))
    \<and> read_result (sqlForPartialUpdate_st (snd (sqlForPartialUpdate_st w1)))
        = read_result (sqlForPartialUpdate_st w1)"
proof -
  obtain new where "snd (sqlForPartialUpdate_st w1) = w1\<lparr>heap := heap w1 @ new\<rparr>"
    using st_frame by blast
  then have "read_result (sqlForPartialUpdate_st (snd (sqlForPartialUpdate_st w1)))
        = read_result (sqlForPartialUpdate_st w1)"
    by (simp add: st_result)
  with assms show ?thesis by (simp add: st_result)
qed

theorem identical_inputs_identical_results_witness:
  "dataToUpdate_obj \<lparr>dataToUpdate_obj = [(''age'', 45 :: int)], jsToSql_obj = Some [], heap = []\<rparr>
     = dataToUpdate_obj \<lparr>dataToUpdate_obj = [(''age'', 45)], jsToSql_obj = Some [],
                          heap = [ValArray [7], StrArray [''x'']]\<rparr>
   \<and> jsToSql_obj \<lparr>dataToUpdate_obj = [(''age'', 45 :: int)], jsToSql_obj = Some [], heap = []\<rparr>
     = jsToSql_obj \<lparr>dataToUpdate_obj = [(''age'', 45 :: int)], jsToSql_obj = Some [],
                     heap = [ValArray [7], StrArray [''x'']]\<rparr>
   \<and> read_result (sqlForPartialUpdate_st
          \<lparr>dataToUpdate_obj = [(''age'', 45 :: int)], jsToSql_obj = Some [], heap = []\<rparr>)
     = read_result (sqlForPartialUpdate_st
          \<lparr>dataToUpdate_obj = [(''age'', 45 :: int)], jsToSql_obj = Some [],
             heap = [ValArray [7], StrArray [''x'']]\<rparr>)"
proof -
  let ?w1 = "\<lparr>dataToUpdate_obj = [(''age'', 45 :: int)], jsToSql_obj = Some [], heap = []\<rparr>"
  let ?w2 = "\<lparr>dataToUpdate_obj = [(''age'', 45 :: int)], jsToSql_obj = Some [],
              heap = [ValArray [7], StrArray [''x'']]\<rparr>"
  have h1: "dataToUpdate_obj ?w1 = dataToUpdate_obj ?w2"
    and h2: "jsToSql_obj ?w1 = jsToSql_obj ?w2"
    by simp_all
  from identical_inputs_identical_results [OF h1 h2]
  have "read_result (sqlForPartialUpdate_st ?w1) = read_result (sqlForPartialUpdate_st ?w2)"
    by blast
  with h1 h2 show ?thesis by blast
qed

text \<open>
  Claim C8. A call leaves the object behind \<open>dataToUpdate\<close> and the object behind
  \<open>jsToSql\<close> as they were, and every cell the heap had before the call keeps its place
  and its content: the heap after the call is the heap before it followed by the cells
  the call allocated.
\<close>

theorem builder_leaves_store_unchanged:
  "dataToUpdate_obj (snd (sqlForPartialUpdate_st w)) = dataToUpdate_obj w
   \<and> jsToSql_obj (snd (sqlForPartialUpdate_st w)) = jsToSql_obj w
   \<and> (\<exists>new. heap (snd (sqlForPartialUpdate_st w)) = heap w @ new)"
proof -
  obtain new where "snd (sqlForPartialUpdate_st w) = w\<lparr>heap := heap w @ new\<rparr>"
    using st_frame by blast
  then show ?thesis by simp
qed

text \<open>
  Claim C9. The claim says that every call ends with a clause or with the
  \<open>BadRequestError\<close>. The call \<open>sqlForPartialUpdate({numEmployees: 10})\<close>, with no mapping,
  ends with neither: it throws a \<open>TypeError\<close>. (That every call ends, and within a
  number of steps linear in the number of keys, is \<open>time_linear\<close>.)
\<close>

theorem omitted_mapping_ends_in_TypeError:
  "sqlForPartialUpdate [(''numEmployees'', 10 :: int)] None = Inl TypeError
   \<and> (\<forall>r. sqlForPartialUpdate [(''numEmployees'', 10 :: int)] None \<noteq> Inr r)
   \<and> (\<forall>msg. sqlForPartialUpdate [(''numEmployees'', 10 :: int)] None \<noteq> Inl (BadRequestError msg))"
proof -
  have "sqlForPartialUpdate [(''numEmployees'', 10 :: int)] None = Inl TypeError"
    by code_simp
  then show ?thesis by simp
qed



end
